theory Spec2Isabelle
  imports Main "HOL-Library.Word"
begin

section \<open>The book registry of main.go\<close>

subsection \<open>Data model\<close>

text \<open>
  Go's \<^verbatim>\<open>int\<close> is a two's-complement machine integer, 64 bits wide on the 64-bit
  targets (amd64, arm64); arithmetic on it wraps around and comparisons are signed.
\<close>

type_synonym go_int = "64 word"

text \<open>The struct \<^verbatim>\<open>book\<close> (main.go, lines 11-16).\<close>

record book =
  ID :: string
  Title :: string
  Author :: string
  Quantity :: go_int

text \<open>An \<^verbatim>\<open>error\<close> value built by \<^verbatim>\<open>errors.New\<close>, or handed back by the binder.\<close>

datatype error = Error string

text \<open>
  The body of a response: nothing (only the header was written), or what a handler hands
  to \<^verbatim>\<open>c.IndentedJSON\<close>: a \<^verbatim>\<open>gin.H\<close> with a message, a \<^verbatim>\<open>gin.H\<close> with a message and a
  book under "data", one book, or the slice of books.
\<close>

datatype json =
    No_body
  | H_message string
  | H_message_data string book
  | Book_json book
  | Books_json "book list"

record response =
  status :: nat
  body :: json

definition StatusOK :: nat where "StatusOK = 200"
definition StatusCreated :: nat where "StatusCreated = 201"
definition StatusBadRequest :: nat where "StatusBadRequest = 400"
definition StatusNotFound :: nat where "StatusNotFound = 404"

text \<open>
  A handler is a function of the request data it reads from the context and of the
  package variable \<^verbatim>\<open>books\<close>; it returns the response that its calls on the context
  wrote (\<open>None\<close> when none of them wrote one) and the new value of \<^verbatim>\<open>books\<close>.
\<close>

type_synonym outcome = "response option \<times> book list"

definition IndentedJSON :: "nat \<Rightarrow> json \<Rightarrow> response option" where
  "IndentedJSON code obj = Some \<lparr>status = code, body = obj\<rparr>"

text \<open>The initial value of \<^verbatim>\<open>books\<close> (lines 18-23).\<close>

definition books :: "book list" where
  "books =
    [\<lparr>ID = ''1'', Title = ''Golang pointers'', Author = ''Mr. Golang'', Quantity = 2\<rparr>,
     \<lparr>ID = ''2'', Title = ''Goroutines'', Author = ''Mr. Goroutine'', Quantity = 20\<rparr>,
     \<lparr>ID = ''3'', Title = ''Golang routers'', Author = ''Mr. Router'', Quantity = 30\<rparr>,
     \<lparr>ID = ''4'', Title = ''Golang concurrency'', Author = ''Mr. Currency'', Quantity = 40\<rparr>]"

subsection \<open>Handlers\<close>

text \<open>\<^verbatim>\<open>getBooks\<close> (lines 28-30).\<close>

definition getBooks :: "book list \<Rightarrow> outcome" where
  "getBooks bs = (IndentedJSON StatusOK (Books_json bs), bs)"

text \<open>
  \<^verbatim>\<open>c.BindJSON\<close> is gin's, not this repository's. Its argument here is the outcome of
  decoding the request body into a \<^verbatim>\<open>book\<close>. On an error gin's \<^verbatim>\<open>MustBindWith\<close> calls
  \<^verbatim>\<open>c.AbortWithError(http.StatusBadRequest, err)\<close>, which sets status 400 and writes the
  header at once, with no body, and then hands the error back to the caller. On success it
  writes nothing and the book is stored into \<^verbatim>\<open>newBook\<close>.
\<close>

definition BindJSON :: "error + book \<Rightarrow> response option \<times> (error + book)" where
  "BindJSON decoded =
    (case decoded of
       Inl err \<Rightarrow> (Some \<lparr>status = StatusBadRequest, body = No_body\<rparr>, Inl err)
     | Inr b \<Rightarrow> (None, Inr b))"

text \<open>
  \<^verbatim>\<open>createBook\<close> (lines 43-52). When \<^verbatim>\<open>c.BindJSON\<close> returns an error the handler returns
  with whatever that call wrote; otherwise it appends and writes the 201 response.
\<close>

definition createBook :: "error + book \<Rightarrow> book list \<Rightarrow> outcome" where
  "createBook decoded bs =
    (case BindJSON decoded of
       (written, Inl err) \<Rightarrow> (written, bs)
     | (written, Inr newBook) \<Rightarrow>
         (IndentedJSON StatusCreated (Book_json newBook), bs @ [newBook]))"

text \<open>
  \<^verbatim>\<open>getBookById\<close> (lines 71-78). The loop ranges over the slice with its index; the
  pointer \<^verbatim>\<open>&books[i]\<close> it returns is the index \<open>i\<close>.
\<close>

fun getBookById_from :: "nat \<Rightarrow> book list \<Rightarrow> string \<Rightarrow> error + nat" where
  "getBookById_from i [] ident = Inl (Error ''book not found'')"
| "getBookById_from i (b # rest) ident =
     (if ID b = ident then Inr i else getBookById_from (Suc i) rest ident)"

definition getBookById :: "book list \<Rightarrow> string \<Rightarrow> error + nat" where
  "getBookById bs ident = getBookById_from 0 bs ident"

text \<open>\<^verbatim>\<open>bookById\<close> (lines 55-66); the argument is \<^verbatim>\<open>c.Param("id")\<close>.\<close>

definition bookById :: "string \<Rightarrow> book list \<Rightarrow> outcome" where
  "bookById ident bs =
    (case getBookById bs ident of
       Inl err \<Rightarrow> (IndentedJSON StatusNotFound (H_message ''Book not found''), bs)
     | Inr i \<Rightarrow> (IndentedJSON StatusOK (Book_json (bs ! i)), bs))"

text \<open>
  \<^verbatim>\<open>checkoutBook\<close> (lines 83-106); the argument is \<^verbatim>\<open>c.GetQuery("id")\<close>, \<open>None\<close> when
  \<^verbatim>\<open>ok\<close> is false. The write through the pointer updates the slice element in place.
\<close>

definition checkoutBook :: "string option \<Rightarrow> book list \<Rightarrow> outcome" where
  "checkoutBook q bs =
    (case q of
       None \<Rightarrow> (IndentedJSON StatusBadRequest (H_message ''missing query parameter 'id' ''), bs)
     | Some ident \<Rightarrow>
        (case getBookById bs ident of
           Inl err \<Rightarrow> (IndentedJSON StatusNotFound (H_message ''book not found''), bs)
         | Inr i \<Rightarrow>
            if sint (Quantity (bs ! i)) \<le> 0
            then (IndentedJSON StatusBadRequest
                    (H_message ''book is not available at the moment, check in again later''), bs)
            else
              let bs' = bs[i := (bs ! i)\<lparr>Quantity := Quantity (bs ! i) - 1\<rparr>]
              in (IndentedJSON StatusOK (H_message_data ''success'' (bs' ! i)), bs')))"

text \<open>\<^verbatim>\<open>returnBook\<close> (lines 111-128).\<close>

definition returnBook :: "string option \<Rightarrow> book list \<Rightarrow> outcome" where
  "returnBook q bs =
    (case q of
       None \<Rightarrow>
         (IndentedJSON StatusBadRequest
            (H_message (''missing query parameter 'id'' @ [CHR 0x27])), bs)
     | Some ident \<Rightarrow>
        (case getBookById bs ident of
           Inl err \<Rightarrow> (IndentedJSON StatusNotFound (H_message ''book not found''), bs)
         | Inr i \<Rightarrow>
            let bs' = bs[i := (bs ! i)\<lparr>Quantity := Quantity (bs ! i) + 1\<rparr>]
            in (IndentedJSON StatusOK (Book_json (bs' ! i)), bs')))"

text \<open>A run of \<^verbatim>\<open>createBook\<close> calls whose payloads all decode, one after the other.\<close>

fun createBooks :: "book list \<Rightarrow> book list \<Rightarrow> book list" where
  "createBooks [] bs = bs"
| "createBooks (newBook # others) bs = createBooks others (snd (createBook (Inr newBook) bs))"

text \<open>\<open>n\<close> calls of \<^verbatim>\<open>checkoutBook\<close> with the same query parameter, one after the other.\<close>

fun checkouts :: "nat \<Rightarrow> string \<Rightarrow> book list \<Rightarrow> book list" where
  "checkouts 0 ident bs = bs"
| "checkouts (Suc n) ident bs = checkouts n ident (snd (checkoutBook (Some ident) bs))"

text \<open>
  Stores used as concrete inputs below: one whose only book holds the largest \<^verbatim>\<open>int\<close>,
  one with a zero and a negative quantity, and two in which two books share an id
  (\<^verbatim>\<open>createBook\<close> admits all of them).
\<close>

definition full_shelf :: "book list" where
  "full_shelf = [\<lparr>ID = ''9'', Title = ''T'', Author = ''A'', Quantity = 0x7FFFFFFFFFFFFFFF\<rparr>]"

definition sold_out :: "book list" where
  "sold_out =
    [\<lparr>ID = ''5'', Title = ''Gone'', Author = ''D'', Quantity = 0\<rparr>,
     \<lparr>ID = ''6'', Title = ''Owed'', Author = ''E'', Quantity = - 3\<rparr>]"

definition twins :: "book list" where
  "twins =
    [\<lparr>ID = ''7'', Title = ''First'', Author = ''A'', Quantity = 1\<rparr>,
     \<lparr>ID = ''8'', Title = ''Other'', Author = ''B'', Quantity = 4\<rparr>,
     \<lparr>ID = ''8'', Title = ''Second'', Author = ''C'', Quantity = 9\<rparr>]"

definition shadowed :: "book list" where
  "shadowed =
    [\<lparr>ID = ''8'', Title = ''Front'', Author = ''F'', Quantity = 0\<rparr>,
     \<lparr>ID = ''8'', Title = ''Behind'', Author = ''G'', Quantity = 9\<rparr>]"

section \<open>Properties\<close>

subsection \<open>The lookup\<close>

lemma getBookById_from_Inr:
  "getBookById_from k bs ident = Inr i \<Longrightarrow>
     k \<le> i \<and> i - k < length bs \<and> ID (bs ! (i - k)) = ident \<and> (\<forall>j < i - k. ID (bs ! j) \<noteq> ident)"
proof (induction bs arbitrary: k)
  case Nil
  then show ?case by simp
next
  case (Cons b rest)
  show ?case
  proof (cases "ID b = ident")
    case True
    with Cons.prems show ?thesis by simp
  next
    case False
    with Cons.prems have r: "getBookById_from (Suc k) rest ident = Inr i" by simp
    from Cons.IH [OF r] have ih: "Suc k \<le> i" "i - Suc k < length rest"
      "ID (rest ! (i - Suc k)) = ident" "\<forall>j < i - Suc k. ID (rest ! j) \<noteq> ident" by auto
    from ih(1) have e: "i - k = Suc (i - Suc k)" by arith
    have "\<forall>j < i - k. ID ((b # rest) ! j) \<noteq> ident"
    proof (intro allI impI)
      fix j assume "j < i - k"
      then show "ID ((b # rest) ! j) \<noteq> ident"
        using False ih(4) e by (cases j) auto
    qed
    with ih e show ?thesis by auto
  qed
qed

lemma getBookById_from_Inl:
  "getBookById_from k bs ident = Inl e \<Longrightarrow> e = Error ''book not found'' \<and> ident \<notin> ID ` set bs"
  by (induction bs arbitrary: k) (auto split: if_splits)

lemma getBookById_Inr:
  "getBookById bs ident = Inr i \<Longrightarrow>
     i < length bs \<and> ID (bs ! i) = ident \<and> (\<forall>j < i. ID (bs ! j) \<noteq> ident)"
  using getBookById_from_Inr [of 0 bs ident i] by (simp add: getBookById_def)

lemma getBookById_Inl:
  "getBookById bs ident = Inl e \<Longrightarrow> e = Error ''book not found'' \<and> ident \<notin> ID ` set bs"
  using getBookById_from_Inl [of 0 bs ident e] by (simp add: getBookById_def)

lemma getBookById_absent:
  "ident \<notin> ID ` set bs \<Longrightarrow> getBookById bs ident = Inl (Error ''book not found'')"
proof -
  assume a: "ident \<notin> ID ` set bs"
  show ?thesis
  proof (cases "getBookById bs ident")
    case (Inl e)
    with getBookById_Inl show ?thesis by simp
  next
    case (Inr i)
    from getBookById_Inr [OF Inr] have "i < length bs" "ID (bs ! i) = ident" by auto
    then have "ident \<in> ID ` set bs" by (metis imageI nth_mem)
    with a show ?thesis by simp
  qed
qed

lemma getBookById_present:
  "ident \<in> ID ` set bs \<Longrightarrow> \<exists>i. getBookById bs ident = Inr i"
proof -
  assume a: "ident \<in> ID ` set bs"
  show ?thesis
  proof (cases "getBookById bs ident")
    case (Inl e)
    with getBookById_Inl a show ?thesis by blast
  next
    case (Inr i)
    then show ?thesis by simp
  qed
qed

text \<open>The record an id resolves to is the first one in the store that carries it.\<close>

lemma getBookById_first:
  assumes "i < length bs" and "ID (bs ! i) = ident"
    and "\<forall>j. j < i \<longrightarrow> ID (bs ! j) \<noteq> ident"
  shows "getBookById bs ident = Inr i"
proof -
  from assms(1,2) have "ident \<in> ID ` set bs" by (metis imageI nth_mem)
  from getBookById_present [OF this] obtain k where k: "getBookById bs ident = Inr k" ..
  from getBookById_Inr [OF k] have k1: "ID (bs ! k) = ident"
    and k2: "\<forall>j<k. ID (bs ! j) \<noteq> ident" by auto
  have "\<not> k < i" using assms(3) k1 by blast
  moreover have "\<not> i < k" using k2 assms(2) by blast
  ultimately have "k = i" by arith
  with k show ?thesis by simp
qed

lemma getBookById_shadowed: "getBookById shadowed ''8'' = Inr 0"
  by (simp add: getBookById_def shadowed_def)

lemma getBookById_full_shelf: "getBookById full_shelf ''9'' = Inr 0"
  by (simp add: getBookById_def full_shelf_def)

lemma getBookById_twins: "getBookById twins ''8'' = Inr 1"
  by (simp add: getBookById_def twins_def)

subsection \<open>Signed arithmetic on the quantity\<close>

lemma sint_dec:
  fixes q :: go_int
  assumes "0 < sint q"
  shows "sint (q - 1) = sint q - 1"
proof -
  have "sint q < 2 ^ 63" using sint_lt [of q] by simp
  with assms show ?thesis
    by (simp add: sint_word_ariths signed_take_bit_int_eq_self)
qed

lemma sint_inc:
  fixes q :: go_int
  assumes "sint q < 2 ^ 63 - 1"
  shows "sint (q + 1) = sint q + 1"
proof -
  have "- (2 ^ 63) \<le> sint q" using sint_ge [of q] by simp
  with assms show ?thesis
    by (simp add: sint_word_ariths signed_take_bit_int_eq_self)
qed

lemma sint_inc_max:
  fixes q :: go_int
  assumes "sint q = 2 ^ 63 - 1"
  shows "sint (q + 1) = - (2 ^ 63)"
proof -
  have "sint q = sint (0x7FFFFFFFFFFFFFFF :: go_int)" using assms by simp
  then have "q = 0x7FFFFFFFFFFFFFFF" by (simp only: signed_word_eqI)
  then show ?thesis by simp
qed

subsection \<open>Checkout\<close>

text \<open>
  C1, as the code has it. Let record \<open>i\<close> be the first record of the store that carries the
  id (the record the id resolves to). \<^verbatim>\<open>checkoutBook\<close> with that id, on a quantity \<open>q > 0\<close>
  of that record, answers 200 with the success envelope and leaves the record with quantity
  \<open>q - 1\<close>; on \<open>q \<le> 0\<close> it answers 400 with the "not available" message and returns the
  store as it was.
\<close>

theorem checkoutBook_quantity:
  assumes "i < length bs" and "ID (bs ! i) = ident"
    and "\<forall>j. j < i \<longrightarrow> ID (bs ! j) \<noteq> ident"
  shows "(0 < sint (Quantity (bs ! i)) \<longrightarrow>
            checkoutBook (Some ident) bs =
              (IndentedJSON StatusOK
                 (H_message_data ''success'' ((bs ! i)\<lparr>Quantity := Quantity (bs ! i) - 1\<rparr>)),
               bs[i := (bs ! i)\<lparr>Quantity := Quantity (bs ! i) - 1\<rparr>])
            \<and> sint (Quantity (snd (checkoutBook (Some ident) bs) ! i))
                = sint (Quantity (bs ! i)) - 1)
       \<and> (sint (Quantity (bs ! i)) \<le> 0 \<longrightarrow>
            checkoutBook (Some ident) bs =
              (IndentedJSON StatusBadRequest
                 (H_message ''book is not available at the moment, check in again later''), bs))"
proof -
  from getBookById_first [OF assms] have g: "getBookById bs ident = Inr i" .
  show ?thesis using g assms(1)
    by (simp add: checkoutBook_def Let_def sint_dec)
qed

theorem checkoutBook_quantity_witness:
  "1 < length twins \<and> ID (twins ! 1) = ''8'' \<and> ID (twins ! 0) \<noteq> ''8'' \<and>
   0 < sint (Quantity (twins ! 1)) \<and>
   sint (Quantity (snd (checkoutBook (Some ''8'') twins) ! 1)) = 3 \<and>
   1 < length sold_out \<and> ID (sold_out ! 1) = ''6'' \<and> ID (sold_out ! 0) \<noteq> ''6'' \<and>
   sint (Quantity (sold_out ! 1)) \<le> 0 \<and>
   checkoutBook (Some ''6'') sold_out =
     (IndentedJSON StatusBadRequest
        (H_message ''book is not available at the moment, check in again later''), sold_out)"
proof -
  have t: "1 < length twins" "ID (twins ! 1) = ''8''" "ID (twins ! 0) \<noteq> ''8''"
    by (simp_all add: twins_def)
  then have tf: "\<forall>j. j < (1::nat) \<longrightarrow> ID (twins ! j) \<noteq> ''8''" by simp
  have q: "sint (Quantity (twins ! 1)) = 4" by (simp add: twins_def)
  then have pos: "0 < sint (Quantity (twins ! 1))" by simp
  from checkoutBook_quantity [OF t(1) t(2) tf] pos
  have "sint (Quantity (snd (checkoutBook (Some ''8'') twins) ! 1))
          = sint (Quantity (twins ! 1)) - 1" by blast
  with q have three: "sint (Quantity (snd (checkoutBook (Some ''8'') twins) ! 1)) = 3" by simp
  have o: "1 < length sold_out" "ID (sold_out ! 1) = ''6''" "ID (sold_out ! 0) \<noteq> ''6''"
    by (simp_all add: sold_out_def)
  then have "\<forall>j. j < (1::nat) \<longrightarrow> ID (sold_out ! j) \<noteq> ''6''" by simp
  note refusal = checkoutBook_quantity [OF o(1) o(2) this]
  have neg: "sint (Quantity (sold_out ! 1)) \<le> 0" by (simp add: sold_out_def)
  with refusal have "checkoutBook (Some ''6'') sold_out =
     (IndentedJSON StatusBadRequest
        (H_message ''book is not available at the moment, check in again later''), sold_out)"
    by blast
  with three pos neg t o show ?thesis by simp
qed

text \<open>
  C1, as stated for every record of the store, fails on the store \<open>shadowed\<close>: its second
  record carries the id "8" and has quantity 9, yet the checkout of "8" answers 400 and the
  record keeps quantity 9, because the id resolves to the first record, whose quantity is 0.
\<close>

theorem checkoutBook_quantity_counterexample:
  "1 < length shadowed \<and> ID (shadowed ! 1) = ''8'' \<and> 0 < sint (Quantity (shadowed ! 1)) \<and>
   checkoutBook (Some ''8'') shadowed =
     (IndentedJSON StatusBadRequest
        (H_message ''book is not available at the moment, check in again later''), shadowed) \<and>
   sint (Quantity (snd (checkoutBook (Some ''8'') shadowed) ! 1))
     \<noteq> sint (Quantity (shadowed ! 1)) - 1"
proof -
  have c: "checkoutBook (Some ''8'') shadowed =
     (IndentedJSON StatusBadRequest
        (H_message ''book is not available at the moment, check in again later''), shadowed)"
    by (simp add: checkoutBook_def getBookById_shadowed) (simp add: shadowed_def)
  have "1 < length shadowed" "ID (shadowed ! 1) = ''8''" "sint (Quantity (shadowed ! 1)) = 9"
    by (simp_all add: shadowed_def)
  with c show ?thesis by simp
qed

subsection \<open>Return\<close>

text \<open>
  C2, as the code has it. Let record \<open>i\<close> be the first record of the store that carries the
  id. \<^verbatim>\<open>returnBook\<close> with that id answers 200 with the updated record and adds 1 to the
  record's quantity in 64-bit two's-complement arithmetic: every quantity below \<open>2^63 - 1\<close>
  (zero and the negative ones included) becomes exactly one more, and the largest quantity
  \<open>2^63 - 1\<close> wraps around to \<open>-2^63\<close>. The quantity is therefore bounded above by
  \<open>2^63 - 1\<close>.
\<close>

theorem returnBook_quantity:
  assumes "i < length bs" and "ID (bs ! i) = ident"
    and "\<forall>j. j < i \<longrightarrow> ID (bs ! j) \<noteq> ident"
  shows "returnBook (Some ident) bs =
           (IndentedJSON StatusOK (Book_json ((bs ! i)\<lparr>Quantity := Quantity (bs ! i) + 1\<rparr>)),
            bs[i := (bs ! i)\<lparr>Quantity := Quantity (bs ! i) + 1\<rparr>])
       \<and> (sint (Quantity (bs ! i)) < 2 ^ 63 - 1 \<longrightarrow>
            sint (Quantity (snd (returnBook (Some ident) bs) ! i)) = sint (Quantity (bs ! i)) + 1)
       \<and> (sint (Quantity (bs ! i)) = 2 ^ 63 - 1 \<longrightarrow>
            sint (Quantity (snd (returnBook (Some ident) bs) ! i)) = - (2 ^ 63))"
proof -
  from getBookById_first [OF assms] have g: "getBookById bs ident = Inr i" .
  show ?thesis using g assms(1)
    by (simp add: returnBook_def Let_def sint_inc sint_inc_max)
qed

text \<open>
  C2, as stated, fails twice. On the store \<open>full_shelf\<close> the only record holds the largest
  quantity, and after the return its quantity is not one more than before. On the store
  \<open>shadowed\<close> the second record carries the id "8"; the return of "8" answers 200 and that
  record's quantity is still 9, since the first record was the one incremented.
\<close>

theorem returnBook_quantity_counterexample:
  "ID (full_shelf ! 0) = ''9'' \<and>
   sint (Quantity (snd (returnBook (Some ''9'') full_shelf) ! 0))
     \<noteq> sint (Quantity (full_shelf ! 0)) + 1 \<and>
   1 < length shadowed \<and> ID (shadowed ! 1) = ''8'' \<and>
   map_option status (fst (returnBook (Some ''8'') shadowed)) = Some 200 \<and>
   sint (Quantity (snd (returnBook (Some ''8'') shadowed) ! 1)) = 9 \<and>
   sint (Quantity (snd (returnBook (Some ''8'') shadowed) ! 1))
     \<noteq> sint (Quantity (shadowed ! 1)) + 1"
proof -
  have "sint (Quantity (snd (returnBook (Some ''9'') full_shelf) ! 0))
     \<noteq> sint (Quantity (full_shelf ! 0)) + 1"
    by (simp add: returnBook_def getBookById_full_shelf Let_def) (simp add: full_shelf_def)
  moreover have "map_option status (fst (returnBook (Some ''8'') shadowed)) = Some 200"
    by (simp add: returnBook_def getBookById_shadowed Let_def IndentedJSON_def StatusOK_def)
  moreover have "sint (Quantity (snd (returnBook (Some ''8'') shadowed) ! 1))
     \<noteq> sint (Quantity (shadowed ! 1)) + 1"
    by (simp add: returnBook_def getBookById_shadowed Let_def)
  moreover have "sint (Quantity (snd (returnBook (Some ''8'') shadowed) ! 1)) = 9"
    by (simp add: returnBook_def getBookById_shadowed Let_def) (simp add: shadowed_def)
  moreover have "ID (full_shelf ! 0) = ''9''" "1 < length shadowed" "ID (shadowed ! 1) = ''8''"
    by (simp_all add: full_shelf_def shadowed_def)
  ultimately show ?thesis by simp
qed

theorem returnBook_quantity_witness:
  "1 < length twins \<and> ID (twins ! 1) = ''8'' \<and> ID (twins ! 0) \<noteq> ''8'' \<and>
   sint (Quantity (twins ! 1)) < 2 ^ 63 - 1 \<and>
   sint (Quantity (snd (returnBook (Some ''8'') twins) ! 1)) = 5 \<and>
   0 < length full_shelf \<and> ID (full_shelf ! 0) = ''9'' \<and>
   sint (Quantity (full_shelf ! 0)) = 2 ^ 63 - 1 \<and>
   sint (Quantity (snd (returnBook (Some ''9'') full_shelf) ! 0)) = - (2 ^ 63)"
proof -
  have t: "1 < length twins" "ID (twins ! 1) = ''8''" "ID (twins ! 0) \<noteq> ''8''"
    by (simp_all add: twins_def)
  then have tf: "\<forall>j. j < (1::nat) \<longrightarrow> ID (twins ! j) \<noteq> ''8''" by simp
  have q: "sint (Quantity (twins ! 1)) = 4" by (simp add: twins_def)
  then have below: "sint (Quantity (twins ! 1)) < 2 ^ 63 - 1" by simp
  from returnBook_quantity [OF t(1) t(2) tf] below
  have "sint (Quantity (snd (returnBook (Some ''8'') twins) ! 1))
          = sint (Quantity (twins ! 1)) + 1" by blast
  with q have five: "sint (Quantity (snd (returnBook (Some ''8'') twins) ! 1)) = 5" by simp
  have f: "0 < length full_shelf" "ID (full_shelf ! 0) = ''9''"
    by (simp_all add: full_shelf_def)
  have ff: "\<forall>j. j < (0::nat) \<longrightarrow> ID (full_shelf ! j) \<noteq> ''9''" by simp
  have m: "sint (Quantity (full_shelf ! 0)) = 2 ^ 63 - 1" by (simp add: full_shelf_def)
  from returnBook_quantity [OF f(1) f(2) ff] m
  have "sint (Quantity (snd (returnBook (Some ''9'') full_shelf) ! 0)) = - (2 ^ 63)" by blast
  with five below m t f show ?thesis by simp
qed

subsection \<open>Failures that leave the store alone\<close>

text \<open>
  C3. Without the query parameter \<open>id\<close>, \<^verbatim>\<open>checkoutBook\<close> and \<^verbatim>\<open>returnBook\<close> both answer
  with status 400 and return the store as it was, whatever the store is.
\<close>

theorem missing_id_leaves_store:
  "map_option status (fst (checkoutBook None bs)) = Some 400 \<and> snd (checkoutBook None bs) = bs \<and>
   map_option status (fst (returnBook None bs)) = Some 400 \<and> snd (returnBook None bs) = bs"
  by (simp add: checkoutBook_def returnBook_def IndentedJSON_def StatusBadRequest_def)

text \<open>
  C4. With an id that no record of the store carries, \<^verbatim>\<open>checkoutBook\<close> and \<^verbatim>\<open>returnBook\<close>
  both answer with status 404 and return the store as it was.
\<close>

theorem unknown_id_not_found:
  assumes "ident \<notin> ID ` set bs"
  shows "checkoutBook (Some ident) bs =
           (IndentedJSON StatusNotFound (H_message ''book not found''), bs)
       \<and> returnBook (Some ident) bs =
           (IndentedJSON StatusNotFound (H_message ''book not found''), bs)
       \<and> StatusNotFound = 404"
  using getBookById_absent [OF assms]
  by (simp add: checkoutBook_def returnBook_def StatusNotFound_def)

theorem unknown_id_not_found_witness:
  "''999'' \<notin> ID ` set books \<and>
   checkoutBook (Some ''999'') books = (IndentedJSON StatusNotFound (H_message ''book not found''), books) \<and>
   returnBook (Some ''999'') books = (IndentedJSON StatusNotFound (H_message ''book not found''), books)"
proof -
  have h: "''999'' \<notin> ID ` set books" by (simp add: books_def)
  from unknown_id_not_found [OF h] h show ?thesis by simp
qed

subsection \<open>Fetching one book\<close>

text \<open>
  C5. When some record carries the id, \<^verbatim>\<open>bookById\<close> answers 200 with the first such record
  in the order of the store (no earlier record carries the id); when none does, it answers
  404 with the message "Book not found". The store is returned as it was.
\<close>

theorem bookById_first_match:
  "(ident \<in> ID ` set bs \<longrightarrow>
      (\<exists>i. i < length bs \<and> ID (bs ! i) = ident \<and> (\<forall>j. j < i \<longrightarrow> ID (bs ! j) \<noteq> ident) \<and>
           getBookById bs ident = Inr i \<and>
           bookById ident bs = (IndentedJSON StatusOK (Book_json (bs ! i)), bs)))
   \<and> (ident \<notin> ID ` set bs \<longrightarrow>
      bookById ident bs = (Some \<lparr>status = 404, body = H_message ''Book not found''\<rparr>, bs))"
proof (intro conjI impI)
  assume "ident \<in> ID ` set bs"
  from getBookById_present [OF this] obtain i where i: "getBookById bs ident = Inr i" ..
  from getBookById_Inr [OF i] i show "\<exists>i. i < length bs \<and> ID (bs ! i) = ident \<and>
      (\<forall>j. j < i \<longrightarrow> ID (bs ! j) \<noteq> ident) \<and> getBookById bs ident = Inr i \<and>
      bookById ident bs = (IndentedJSON StatusOK (Book_json (bs ! i)), bs)"
    by (simp add: bookById_def)
next
  assume "ident \<notin> ID ` set bs"
  from getBookById_absent [OF this]
  show "bookById ident bs = (Some \<lparr>status = 404, body = H_message ''Book not found''\<rparr>, bs)"
    by (simp add: bookById_def IndentedJSON_def StatusNotFound_def)
qed

theorem bookById_first_match_witness:
  "''8'' \<in> ID ` set twins \<and>
   bookById ''8'' twins =
     (IndentedJSON StatusOK (Book_json \<lparr>ID = ''8'', Title = ''Other'', Author = ''B'', Quantity = 4\<rparr>), twins) \<and>
   ''999'' \<notin> ID ` set twins \<and>
   bookById ''999'' twins = (Some \<lparr>status = 404, body = H_message ''Book not found''\<rparr>, twins)"
proof -
  have p: "''8'' \<in> ID ` set twins" by (simp add: twins_def)
  have a: "''999'' \<notin> ID ` set twins" by (simp add: twins_def)
  from bookById_first_match [of "''8''" twins] p have
    "bookById ''8'' twins = (IndentedJSON StatusOK (Book_json (twins ! 1)), twins)"
    by (simp add: getBookById_twins)
  moreover have "twins ! 1 = \<lparr>ID = ''8'', Title = ''Other'', Author = ''B'', Quantity = 4\<rparr>"
    by (simp add: twins_def)
  moreover from bookById_first_match [of "''999''" twins] a have
    "bookById ''999'' twins = (Some \<lparr>status = 404, body = H_message ''Book not found''\<rparr>, twins)"
    by simp
  ultimately show ?thesis using p a by simp
qed

subsection \<open>Creating and listing\<close>

lemma createBooks_append: "createBooks newBooks bs = bs @ newBooks"
  by (induction newBooks arbitrary: bs) (simp_all add: createBook_def BindJSON_def)

text \<open>
  C6. \<^verbatim>\<open>createBook\<close> with a decoded payload answers 201 with that book and appends it to the
  store as it is, for every book and every store (no check of the id against the store, no
  check of any field). After any run of such calls from the initial store, \<^verbatim>\<open>getBooks\<close>
  answers 200 with the four initial records followed by the created ones in call order.
\<close>

theorem createBooks_then_getBooks:
  "createBook (Inr newBook) bs = (IndentedJSON StatusCreated (Book_json newBook), bs @ [newBook])
   \<and> createBooks newBooks books = books @ newBooks
   \<and> getBooks (createBooks newBooks books)
       = (IndentedJSON StatusOK (Books_json (books @ newBooks)), books @ newBooks)
   \<and> length books = 4"
  by (simp add: createBooks_append createBook_def BindJSON_def getBooks_def)
     (simp add: books_def)

text \<open>
  C8, as the code has it. When the payload does not decode, \<^verbatim>\<open>createBook\<close> returns right
  after \<^verbatim>\<open>c.BindJSON\<close>: the response has no body and the store is as it was, and the
  response carries the status 400 that \<^verbatim>\<open>c.BindJSON\<close> set before handing back the error.
\<close>

theorem createBook_decode_failure:
  "createBook (Inl err) bs = (Some \<lparr>status = 400, body = No_body\<rparr>, bs)"
  by (simp add: createBook_def BindJSON_def StatusBadRequest_def)

text \<open>
  C8, as stated, fails on the initial store with a body that is not JSON: the response has
  an error status, 400.
\<close>

theorem createBook_decode_failure_counterexample:
  "fst (createBook (Inl (Error ''invalid character'')) books) \<noteq> None \<and>
   map_option status (fst (createBook (Inl (Error ''invalid character'')) books)) = Some 400"
  by (simp add: createBook_def BindJSON_def StatusBadRequest_def)

subsection \<open>The message for a missing id\<close>

text \<open>
  C7. Without the query parameter, \<^verbatim>\<open>checkoutBook\<close> answers 400 with the message
  \<^verbatim>\<open>missing query parameter 'id' \<close>: the text that \<^verbatim>\<open>returnBook\<close> sends, followed by one
  space. It differs from the text without the space.
\<close>

theorem checkoutBook_missing_id_message:
  "checkoutBook None bs =
     (Some \<lparr>status = 400, body = H_message ''missing query parameter 'id' ''\<rparr>, bs)
   \<and> ''missing query parameter 'id' '' = ''missing query parameter 'id'' @ [CHR 0x27] @ '' ''
   \<and> ''missing query parameter 'id' '' \<noteq> ''missing query parameter 'id'' @ [CHR 0x27]"
  by (simp add: checkoutBook_def IndentedJSON_def StatusBadRequest_def)

subsection \<open>The scenario on the initial store\<close>

lemma checkouts_5:
  "checkouts 5 ''1'' books =
     \<lparr>ID = ''1'', Title = ''Golang pointers'', Author = ''Mr. Golang'', Quantity = 0\<rparr> # tl books"
  by (simp add: numeral_eq_Suc checkoutBook_def getBookById_def books_def Let_def)

text \<open>
  C9. The initial store holds the ids "1" to "4" with quantities 2, 20, 30 and 40. After one
  checkout of "1" its quantity is 1; after five checkouts of "1" it is 0, and the sixth
  checkout answers 400 with the message "book is not available at the moment, check in
  again later", leaving the store as the fifth call left it.
\<close>

theorem sixth_checkout_unavailable:
  "map (\<lambda>b. (ID b, sint (Quantity b))) books = [(''1'', 2), (''2'', 20), (''3'', 30), (''4'', 40)]
   \<and> sint (Quantity (checkouts 1 ''1'' books ! 0)) = 1
   \<and> getBookById (checkouts 5 ''1'' books) ''1'' = Inr 0
   \<and> sint (Quantity (checkouts 5 ''1'' books ! 0)) = 0
   \<and> checkoutBook (Some ''1'') (checkouts 5 ''1'' books) =
       (Some \<lparr>status = 400,
               body = H_message ''book is not available at the moment, check in again later''\<rparr>,
        checkouts 5 ''1'' books)"
proof (intro conjI)
  show "map (\<lambda>b. (ID b, sint (Quantity b))) books
          = [(''1'', 2), (''2'', 20), (''3'', 30), (''4'', 40)]"
    by (simp add: books_def)
  show "sint (Quantity (checkouts 1 ''1'' books ! 0)) = 1"
    by (simp add: checkoutBook_def getBookById_def books_def Let_def)
  show g: "getBookById (checkouts 5 ''1'' books) ''1'' = Inr 0"
    by (simp add: checkouts_5 getBookById_def)
  show z: "sint (Quantity (checkouts 5 ''1'' books ! 0)) = 0"
    by (simp add: checkouts_5)
  show "checkoutBook (Some ''1'') (checkouts 5 ''1'' books) =
       (Some \<lparr>status = 400,
               body = H_message ''book is not available at the moment, check in again later''\<rparr>,
        checkouts 5 ''1'' books)"
    using g z by (simp add: checkoutBook_def IndentedJSON_def StatusBadRequest_def)
qed

subsection \<open>What a successful checkout or return leaves untouched\<close>

lemma checkoutBook_OK:
  assumes "checkoutBook q bs = (Some r, bs')" and "status r = StatusOK"
  shows "\<exists>ident i. q = Some ident \<and> getBookById bs ident = Inr i \<and>
           bs' = bs[i := (bs ! i)\<lparr>Quantity := Quantity (bs ! i) - 1\<rparr>]"
  using assms
  by (auto simp: checkoutBook_def IndentedJSON_def Let_def StatusOK_def StatusBadRequest_def
        StatusNotFound_def split: option.splits sum.splits if_splits)

lemma returnBook_OK:
  assumes "returnBook q bs = (Some r, bs')" and "status r = StatusOK"
  shows "\<exists>ident i. q = Some ident \<and> getBookById bs ident = Inr i \<and>
           bs' = bs[i := (bs ! i)\<lparr>Quantity := Quantity (bs ! i) + 1\<rparr>]"
  using assms
  by (auto simp: returnBook_def IndentedJSON_def Let_def StatusOK_def StatusBadRequest_def
        StatusNotFound_def split: option.splits sum.splits if_splits)

lemma quantity_update_frame:
  assumes "getBookById bs ident = Inr i" and "bs' = bs[i := (bs ! i)\<lparr>Quantity := n\<rparr>]"
  shows "i < length bs \<and> ID (bs ! i) = ident \<and> (\<forall>j. j < i \<longrightarrow> ID (bs ! j) \<noteq> ident) \<and>
         length bs' = length bs \<and>
         ID (bs' ! i) = ID (bs ! i) \<and> Title (bs' ! i) = Title (bs ! i) \<and>
         Author (bs' ! i) = Author (bs ! i) \<and>
         (\<forall>j. j < length bs \<and> j \<noteq> i \<longrightarrow> bs' ! j = bs ! j)"
  using getBookById_Inr [OF assms(1)] assms(2) by simp

text \<open>
  C10. A \<^verbatim>\<open>checkoutBook\<close> or \<^verbatim>\<open>returnBook\<close> call that answers 200 had an id, and that id
  resolved to the first record carrying it. The new store has the length of the old one;
  the id, title and author of that record are as before; every record at another index,
  a later one with the same id included, is as before.
\<close>

theorem checkout_return_frame:
  assumes "(handler = checkoutBook \<or> handler = returnBook)"
    and "handler q bs = (Some r, bs')" and "status r = StatusOK"
  shows "\<exists>ident i. q = Some ident \<and> getBookById bs ident = Inr i \<and>
           i < length bs \<and> ID (bs ! i) = ident \<and> (\<forall>j. j < i \<longrightarrow> ID (bs ! j) \<noteq> ident) \<and>
           length bs' = length bs \<and>
           ID (bs' ! i) = ID (bs ! i) \<and> Title (bs' ! i) = Title (bs ! i) \<and>
           Author (bs' ! i) = Author (bs ! i) \<and>
           (\<forall>j. j < length bs \<and> j \<noteq> i \<longrightarrow> bs' ! j = bs ! j)"
proof -
  from assms obtain ident i n where q: "q = Some ident" and g: "getBookById bs ident = Inr i"
    and u: "bs' = bs[i := (bs ! i)\<lparr>Quantity := n\<rparr>]"
    using checkoutBook_OK [of q bs r bs'] returnBook_OK [of q bs r bs'] by blast
  from quantity_update_frame [OF g u] q g show ?thesis by blast
qed

lemma checkout_twins:
  "checkoutBook (Some ''8'') twins =
     (Some \<lparr>status = 200, body = H_message_data ''success''
               \<lparr>ID = ''8'', Title = ''Other'', Author = ''B'', Quantity = 3\<rparr>\<rparr>,
      [\<lparr>ID = ''7'', Title = ''First'', Author = ''A'', Quantity = 1\<rparr>,
       \<lparr>ID = ''8'', Title = ''Other'', Author = ''B'', Quantity = 3\<rparr>,
       \<lparr>ID = ''8'', Title = ''Second'', Author = ''C'', Quantity = 9\<rparr>])"
  by (simp add: checkoutBook_def getBookById_twins Let_def IndentedJSON_def StatusOK_def)
     (simp add: twins_def)

lemma return_twins:
  "returnBook (Some ''8'') twins =
     (Some \<lparr>status = 200,
             body = Book_json \<lparr>ID = ''8'', Title = ''Other'', Author = ''B'', Quantity = 5\<rparr>\<rparr>,
      [\<lparr>ID = ''7'', Title = ''First'', Author = ''A'', Quantity = 1\<rparr>,
       \<lparr>ID = ''8'', Title = ''Other'', Author = ''B'', Quantity = 5\<rparr>,
       \<lparr>ID = ''8'', Title = ''Second'', Author = ''C'', Quantity = 9\<rparr>])"
  by (simp add: returnBook_def getBookById_twins Let_def IndentedJSON_def StatusOK_def)
     (simp add: twins_def)

theorem checkout_return_frame_witness:
  "fst (checkoutBook (Some ''8'') twins) \<noteq> None
   \<and> map_option status (fst (checkoutBook (Some ''8'') twins)) = Some StatusOK
   \<and> getBookById twins ''8'' = Inr 1
   \<and> length (snd (checkoutBook (Some ''8'') twins)) = 3
   \<and> Title (snd (checkoutBook (Some ''8'') twins) ! 1) = ''Other''
   \<and> snd (checkoutBook (Some ''8'') twins) ! 0 = twins ! 0
   \<and> snd (checkoutBook (Some ''8'') twins) ! 2 = twins ! 2
   \<and> map_option status (fst (returnBook (Some ''8'') twins)) = Some StatusOK
   \<and> Author (snd (returnBook (Some ''8'') twins) ! 1) = ''B''
   \<and> snd (returnBook (Some ''8'') twins) ! 2 = twins ! 2"
proof -
  let ?r = "\<lparr>status = 200, body = H_message_data ''success''
               \<lparr>ID = ''8'', Title = ''Other'', Author = ''B'', Quantity = 3\<rparr>\<rparr>"
  let ?r' = "\<lparr>status = 200,
               body = Book_json \<lparr>ID = ''8'', Title = ''Other'', Author = ''B'', Quantity = 5\<rparr>\<rparr>"
  have ok: "status ?r = StatusOK" and ok': "status ?r' = StatusOK"
    by (simp_all add: StatusOK_def)
  have len: "length twins = 3" and t1: "Title (twins ! 1) = ''Other''"
    and a1: "Author (twins ! 1) = ''B''"
    by (simp_all add: twins_def)
  from checkout_return_frame [OF disjI1 [OF refl] checkout_twins ok]
  obtain i where i: "getBookById twins ''8'' = Inr i"
    and c: "length (snd (checkoutBook (Some ''8'') twins)) = length twins"
      "Title (snd (checkoutBook (Some ''8'') twins) ! i) = Title (twins ! i)"
      "\<forall>j. j < length twins \<and> j \<noteq> i \<longrightarrow> snd (checkoutBook (Some ''8'') twins) ! j = twins ! j"
    by (auto simp: checkout_twins)
  from i have i1: "i = 1" by (simp add: getBookById_twins)
  from checkout_return_frame [OF disjI2 [OF refl] return_twins ok']
  obtain k where k: "getBookById twins ''8'' = Inr k"
    and r: "Author (snd (returnBook (Some ''8'') twins) ! k) = Author (twins ! k)"
      "\<forall>j. j < length twins \<and> j \<noteq> k \<longrightarrow> snd (returnBook (Some ''8'') twins) ! j = twins ! j"
    by (auto simp: return_twins)
  from k have k1: "k = 1" by (simp add: getBookById_twins)
  from c(3) i1 len have "snd (checkoutBook (Some ''8'') twins) ! 0 = twins ! 0"
    and "snd (checkoutBook (Some ''8'') twins) ! 2 = twins ! 2" by simp_all
  moreover from r(2) k1 len have "snd (returnBook (Some ''8'') twins) ! 2 = twins ! 2" by simp
  moreover have "fst (checkoutBook (Some ''8'') twins) \<noteq> None"
    and "map_option status (fst (checkoutBook (Some ''8'') twins)) = Some StatusOK"
    and "map_option status (fst (returnBook (Some ''8'') twins)) = Some StatusOK"
    by (simp_all add: checkout_twins return_twins StatusOK_def)
  ultimately show ?thesis
    using c(1,2) r(1) i1 k1 len t1 a1 getBookById_twins by simp
qed

end
